theory Spec2Isabelle
  imports Complex_Main "HOL-Library.Word"
begin

unbundle bit_operations_syntax

section \<open>Data model of Auth.js\<close>

text \<open>
  The classes \<open>User\<close> and \<open>Session\<close> are records with the fields their constructors
  assign. The \<open>role\<close> field is a string: \<open>signup\<close> writes \<open>'USER'\<close>, the script seeds
  an \<open>'ADMIN'\<close>, and whoever fills \<open>userTable\<close> directly can store any other role,
  which the code only ever compares with \<open>'ADMIN'\<close>. The \<open>password\<close> field holds the
  hexadecimal digest, never the plaintext.

  Emails, names, tokens, digests and messages are \<open>string\<close>s: the code only stores,
  compares and concatenates them. A plaintext password is a list of UTF-16 code units
  (a JavaScript string as \<open>TextEncoder\<close> sees it).
\<close>

type_synonym u8 = "8 word"
type_synonym u32 = "32 word"
type_synonym jsstring = "16 word list"

record User =
  name :: string
  password :: string
  role :: string

record Session =
  token :: string
  loggedIn :: bool

text \<open>The two \<open>Map\<close>s of the class \<open>Auth\<close>, keyed by email.\<close>

record Auth =
  userTable :: "string \<rightharpoonup> User"
  sessionTable :: "string \<rightharpoonup> Session"

text \<open>
  Every method returns an object literal with \<open>success\<close> and some of \<open>error\<close>,
  \<open>message\<close>, \<open>token\<close>, \<open>email\<close> and \<open>data\<close>; a property the literal does not have
  is \<open>None\<close>. The property \<open>token\<close> of a result is the field \<open>resultToken\<close>, since
  \<open>token\<close> names the field of \<open>Session\<close>.
\<close>

record Result =
  success :: bool
  error :: "string option"
  message :: "string option"
  resultToken :: "string option"
  email :: "string option"
  data :: "User option"

definition failure :: "string \<Rightarrow> Result" where
  "failure msg = \<lparr>success = False, error = Some msg, message = None, resultToken = None,
     email = None, data = None\<rparr>"

definition js :: "string \<Rightarrow> jsstring" where
  "js s = map of_char s"

section \<open>Auth.generateToken\<close>

text \<open>
  \<open>String.prototype.charAt\<close> returns the empty string for an index out of range.
\<close>

definition charAt :: "string \<Rightarrow> int \<Rightarrow> string" where
  "charAt s i = (if 0 \<le> i \<and> i < int (length s) then [s ! nat i] else [])"

definition chars :: string where
  "chars = ''ABCDEFGHIJKLMNOPQRSTUVWXYZabcdefghijklmnopqrstuvwxyz0123456789''"

text \<open>
  A non-negative finite Number is an IEEE double: the pair \<open>(m, e)\<close> stands for
  \<open>m * 2 ^ e\<close>, with a significand \<open>m\<close> of at most 53 bits. \<open>Math.random\<close> returns a
  double from 0 up to but not including 1.
\<close>

type_synonym double = "int \<times> int"

definition unit_double :: "double \<Rightarrow> bool" where
  "unit_double d =
     (0 \<le> fst d \<and> fst d < 2 ^ 53 \<and> - 1074 \<le> snd d \<and> snd d < 0 \<and>
      fst d < 2 ^ nat (- snd d))"

text \<open>The number of bits by which \<open>n\<close> is longer than 53 bits.\<close>

function excess :: "int \<Rightarrow> nat" where
  "excess n = (if n < 2 ^ 53 then 0 else Suc (excess (n div 2)))"
  by pat_completeness auto
termination
  by (relation "measure nat") auto

declare excess.simps [simp del]

text \<open>
  The product of a double and a length, as \<open>*\<close> computes it: the exact product, rounded
  to 53 bits, to the nearest double and to the even one of two nearest.
\<close>

definition mul_double :: "double \<Rightarrow> nat \<Rightarrow> double" where
  "mul_double d c =
     (let n = fst d * int c
      in if n < 2 ^ 53 then (n, snd d)
         else
           (let k = excess n;
                q = n div 2 ^ k;
                r = n mod 2 ^ k;
                half = 2 ^ (k - 1)
            in (if half < r \<or> (r = half \<and> odd q) then q + 1 else q, snd d + int k)))"

definition Math_floor :: "double \<Rightarrow> int" where
  "Math_floor d =
     (if 0 \<le> snd d then fst d * 2 ^ nat (snd d) else fst d div 2 ^ nat (- snd d))"

text \<open>
  \<open>Math.random\<close> is the environment's: \<open>rnd i\<close> is the double its \<open>i\<close>-th call returns
  during one run of the loop.
\<close>

definition generateToken :: "nat \<Rightarrow> (nat \<Rightarrow> double) \<Rightarrow> string" where
  "generateToken len rnd =
     foldl (\<lambda>tok i. tok @ charAt chars (Math_floor (mul_double (rnd i) (length chars))))
       [] [0..<len]"

section \<open>Auth.hashPassword\<close>

subsection \<open>TextEncoder.encode: UTF-8 of a string of UTF-16 code units\<close>

definition encode_scalar :: "u32 \<Rightarrow> u8 list" where
  "encode_scalar c =
     (if c < 0x80 then [ucast c]
      else if c < 0x800 then [ucast (0xC0 OR drop_bit 6 c), ucast (0x80 OR (c AND 0x3F))]
      else if c < 0x10000 then
        [ucast (0xE0 OR drop_bit 12 c), ucast (0x80 OR (drop_bit 6 c AND 0x3F)),
         ucast (0x80 OR (c AND 0x3F))]
      else
        [ucast (0xF0 OR drop_bit 18 c), ucast (0x80 OR (drop_bit 12 c AND 0x3F)),
         ucast (0x80 OR (drop_bit 6 c AND 0x3F)), ucast (0x80 OR (c AND 0x3F))])"

definition is_high :: "16 word \<Rightarrow> bool" where
  "is_high u = (0xD800 \<le> u \<and> u \<le> 0xDBFF)"

definition is_low :: "16 word \<Rightarrow> bool" where
  "is_low u = (0xDC00 \<le> u \<and> u \<le> 0xDFFF)"

text \<open>A surrogate that is not part of a pair is encoded as U+FFFD.\<close>

definition lone :: "16 word \<Rightarrow> u32" where
  "lone u = (if is_high u \<or> is_low u then 0xFFFD else ucast u)"

definition pair :: "16 word \<Rightarrow> 16 word \<Rightarrow> u32" where
  "pair u l = 0x10000 + push_bit 10 (ucast u - 0xD800) + (ucast l - 0xDC00)"

fun encode :: "jsstring \<Rightarrow> u8 list" where
  "encode [] = []"
| "encode [u] = encode_scalar (lone u)"
| "encode (u # l # us) =
     (if is_high u \<and> is_low l then encode_scalar (pair u l) @ encode us
      else encode_scalar (lone u) @ encode (l # us))"

subsection \<open>crypto.subtle.digest('SHA-256', data)\<close>

definition rotr :: "nat \<Rightarrow> u32 \<Rightarrow> u32" where
  "rotr n x = drop_bit n x OR push_bit (32 - n) x"

definition Ch :: "u32 \<Rightarrow> u32 \<Rightarrow> u32 \<Rightarrow> u32" where
  "Ch x y z = (x AND y) XOR (NOT x AND z)"

definition Maj :: "u32 \<Rightarrow> u32 \<Rightarrow> u32 \<Rightarrow> u32" where
  "Maj x y z = (x AND y) XOR (x AND z) XOR (y AND z)"

definition Sigma0 :: "u32 \<Rightarrow> u32" where
  "Sigma0 x = rotr 2 x XOR rotr 13 x XOR rotr 22 x"

definition Sigma1 :: "u32 \<Rightarrow> u32" where
  "Sigma1 x = rotr 6 x XOR rotr 11 x XOR rotr 25 x"

definition sigma0 :: "u32 \<Rightarrow> u32" where
  "sigma0 x = rotr 7 x XOR rotr 18 x XOR drop_bit 3 x"

definition sigma1 :: "u32 \<Rightarrow> u32" where
  "sigma1 x = rotr 17 x XOR rotr 19 x XOR drop_bit 10 x"

definition K256 :: "u32 list" where
  "K256 = [
  0x428A2F98, 0x71374491, 0xB5C0FBCF, 0xE9B5DBA5, 0x3956C25B, 0x59F111F1, 0x923F82A4, 0xAB1C5ED5,
  0xD807AA98, 0x12835B01, 0x243185BE, 0x550C7DC3, 0x72BE5D74, 0x80DEB1FE, 0x9BDC06A7, 0xC19BF174,
  0xE49B69C1, 0xEFBE4786, 0x0FC19DC6, 0x240CA1CC, 0x2DE92C6F, 0x4A7484AA, 0x5CB0A9DC, 0x76F988DA,
  0x983E5152, 0xA831C66D, 0xB00327C8, 0xBF597FC7, 0xC6E00BF3, 0xD5A79147, 0x06CA6351, 0x14292967,
  0x27B70A85, 0x2E1B2138, 0x4D2C6DFC, 0x53380D13, 0x650A7354, 0x766A0ABB, 0x81C2C92E, 0x92722C85,
  0xA2BFE8A1, 0xA81A664B, 0xC24B8B70, 0xC76C51A3, 0xD192E819, 0xD6990624, 0xF40E3585, 0x106AA070,
  0x19A4C116, 0x1E376C08, 0x2748774C, 0x34B0BCB5, 0x391C0CB3, 0x4ED8AA4A, 0x5B9CCA4F, 0x682E6FF3,
  0x748F82EE, 0x78A5636F, 0x84C87814, 0x8CC70208, 0x90BEFFFA, 0xA4506CEB, 0xBEF9A3F7, 0xC67178F2]"

type_synonym hstate = "u32 \<times> u32 \<times> u32 \<times> u32 \<times> u32 \<times> u32 \<times> u32 \<times> u32"

definition H0 :: hstate where
  "H0 = (0x6a09e667, 0xbb67ae85, 0x3c6ef372, 0xa54ff53a,
         0x510e527f, 0x9b05688c, 0x1f83d9ab, 0x5be0cd19)"

definition be32 :: "u8 list \<Rightarrow> u32" where
  "be32 bs = foldl (\<lambda>acc b. push_bit 8 acc OR ucast b) 0 bs"

fun chunks :: "nat \<Rightarrow> 'a list \<Rightarrow> 'a list list" where
  "chunks 0 xs = []"
| "chunks n [] = []"
| "chunks n xs = take n xs # chunks n (drop n xs)"

fun schedule :: "nat \<Rightarrow> u32 list \<Rightarrow> u32 list" where
  "schedule 0 w = w"
| "schedule (Suc k) w =
     (let t = length w
      in schedule k
           (w @ [sigma1 (w ! (t - 2)) + w ! (t - 7) + sigma0 (w ! (t - 15)) + w ! (t - 16)]))"

definition round256 :: "hstate \<Rightarrow> u32 \<times> u32 \<Rightarrow> hstate" where
  "round256 s kw = (case s of (a, b, c, d, e, f, g, h) \<Rightarrow>
     (let T1 = h + Sigma1 e + Ch e f g + fst kw + snd kw;
          T2 = Sigma0 a + Maj a b c
      in (T1 + T2, a, b, c, d + T1, e, f, g)))"

definition hadd :: "hstate \<Rightarrow> hstate \<Rightarrow> hstate" where
  "hadd s t = (case s of (a, b, c, d, e, f, g, h) \<Rightarrow>
     case t of (a', b', c', d', e', f', g', h') \<Rightarrow>
       (a + a', b + b', c + c', d + d', e + e', f + f', g + g', h + h'))"

definition compress :: "hstate \<Rightarrow> u8 list \<Rightarrow> hstate" where
  "compress s block =
     (let w = schedule 48 (map be32 (chunks 4 block))
      in hadd s (foldl round256 s (zip K256 w)))"

definition pad :: "u8 list \<Rightarrow> u8 list" where
  "pad m =
     (let l = length m;
          z = (55 + 64 - l mod 64) mod 64;
          bits = (of_nat (8 * l) :: 64 word)
      in m @ [0x80] @ replicate z 0 @ map (\<lambda>i. ucast (drop_bit (8 * (7 - i)) bits)) [0..<8])"

definition word_bytes :: "u32 \<Rightarrow> u8 list" where
  "word_bytes w = [ucast (drop_bit 24 w), ucast (drop_bit 16 w), ucast (drop_bit 8 w), ucast w]"

definition sha256 :: "u8 list \<Rightarrow> u8 list" where
  "sha256 m = (case foldl compress H0 (chunks 64 (pad m)) of (a, b, c, d, e, f, g, h) \<Rightarrow>
     concat (map word_bytes [a, b, c, d, e, f, g, h]))"

subsection \<open>Rendering the digest\<close>

definition hexDigits :: string where
  "hexDigits = ''0123456789abcdef''"

text \<open>\<open>Number.prototype.toString(16)\<close> on a non-negative integer.\<close>

fun toString16 :: "nat \<Rightarrow> string" where
  "toString16 n =
     (if n < 16 then [hexDigits ! n] else toString16 (n div 16) @ [hexDigits ! (n mod 16)])"

declare toString16.simps [simp del]

text \<open>\<open>String.prototype.padStart\<close> with a fill string of one character.\<close>

definition padStart :: "nat \<Rightarrow> char \<Rightarrow> string \<Rightarrow> string" where
  "padStart n c s = replicate (n - length s) c @ s"

definition hashPassword :: "jsstring \<Rightarrow> string" where
  "hashPassword pw =
     (let data = encode pw;
          hashArray = sha256 data
      in concat (map (\<lambda>b. padStart 2 (CHR ''0'') (toString16 (unat b))) hashArray))"

section \<open>The four operations\<close>

text \<open>
  Each method runs to its \<open>return\<close> before the next call starts (the caller awaits it),
  so a method is a function from the state before the call to the result and the state
  after it.
\<close>

definition login :: "(nat \<Rightarrow> double) \<Rightarrow> string \<Rightarrow> jsstring \<Rightarrow> Auth \<Rightarrow> Result \<times> Auth" where
  "login rnd e pw s =
     (case userTable s e of
        None \<Rightarrow> (failure ''Email does not exist'', s)
      | Some user \<Rightarrow>
          (let hashedInput = hashPassword pw
           in if password user \<noteq> hashedInput then (failure ''Wrong password'', s)
              else
                (let tok = generateToken 32 rnd;
                     session = \<lparr>token = tok, loggedIn = True\<rparr>
                 in (\<lparr>success = True, error = None, message = Some ''User logged in!'',
                       resultToken = Some tok, email = None, data = None\<rparr>,
                     s\<lparr>sessionTable := (sessionTable s)(e \<mapsto> session)\<rparr>))))"

definition signup :: "string \<Rightarrow> string \<Rightarrow> jsstring \<Rightarrow> string \<Rightarrow> Auth \<Rightarrow> Result \<times> Auth" where
  "signup nm e pw adminEmail s =
     (case userTable s adminEmail of
        None \<Rightarrow> (failure ''Admin does not exist'', s)
      | Some admin \<Rightarrow>
          if role admin \<noteq> ''ADMIN'' then (failure ''You are not authorized to do that!'', s)
          else if userTable s e \<noteq> None then (failure ''User with this email already exists'', s)
          else
            (let hashedPassword = hashPassword pw;
                 user = \<lparr>name = nm, password = hashedPassword, role = ''USER''\<rparr>
             in (\<lparr>success = True, error = None, message = Some ''User created'',
                   resultToken = None, email = Some e, data = Some user\<rparr>,
                 s\<lparr>userTable := (userTable s)(e \<mapsto> user)\<rparr>)))"

definition changePassword :: "string \<Rightarrow> jsstring \<Rightarrow> jsstring \<Rightarrow> Auth \<Rightarrow> Result \<times> Auth" where
  "changePassword e oldPass newPass s =
     (case userTable s e of
        None \<Rightarrow> (failure ''User does not exist'', s)
      | Some user \<Rightarrow>
          (let oldHashed = hashPassword oldPass
           in if oldHashed \<noteq> password user then (failure ''Old password does not match'', s)
              else
                (let newHashed = hashPassword newPass;
                     updatedUser = \<lparr>name = name user, password = newHashed, role = role user\<rparr>
                 in (\<lparr>success = True, error = None,
                       message = Some ''Password updated successfully'',
                       resultToken = None, email = None, data = None\<rparr>,
                     s\<lparr>userTable := (userTable s)(e \<mapsto> updatedUser)\<rparr>))))"

definition logout :: "string \<Rightarrow> Auth \<Rightarrow> Result \<times> Auth" where
  "logout e s =
     (case sessionTable s e of
        None \<Rightarrow> (failure ''User is not logged in'', s)
      | Some loggedUser \<Rightarrow>
          if \<not> loggedIn loggedUser then (failure ''User is already logged out'', s)
          else
            (\<lparr>success = True, error = None, message = Some ''User has been logged out'',
               resultToken = None, email = None, data = None\<rparr>,
             s\<lparr>sessionTable := (sessionTable s)(e \<mapsto> loggedUser\<lparr>loggedIn := False\<rparr>)\<rparr>))"

subsection \<open>Calls and runs\<close>

datatype Call =
    Signup string string jsstring string
  | Login "nat \<Rightarrow> double" string jsstring
  | ChangePassword string jsstring jsstring
  | Logout string

fun exec :: "Call \<Rightarrow> Auth \<Rightarrow> Result \<times> Auth" where
  "exec (Signup nm e pw adminEmail) s = signup nm e pw adminEmail s"
| "exec (Login rnd e pw) s = login rnd e pw s"
| "exec (ChangePassword e oldPass newPass) s = changePassword e oldPass newPass s"
| "exec (Logout e) s = logout e s"

definition run :: "Call list \<Rightarrow> Auth \<Rightarrow> Auth" where
  "run cs s = foldl (\<lambda>st c. snd (exec c st)) s cs"

subsection \<open>The script at the end of Auth.js\<close>

definition auth0 :: Auth where
  "auth0 = \<lparr>userTable = Map.empty, sessionTable = Map.empty\<rparr>"

text \<open>Test 1: the admin is put into \<open>userTable\<close> directly.\<close>

definition seeded :: Auth where
  "seeded = auth0\<lparr>userTable := (userTable auth0)(''admin@example.com'' \<mapsto>
     \<lparr>name = ''Admin'', password = hashPassword (js ''admin123''), role = ''ADMIN''\<rparr>)\<rparr>"

text \<open>Test 2: John Doe is signed up by the admin.\<close>

definition with_john :: Auth where
  "with_john =
     snd (signup ''John Doe'' ''john@example.com'' (js ''password123'') ''admin@example.com'' seeded)"

text \<open>A sequence of draws of \<open>Math.random\<close>: 0, 1/8, ..., 7/8 and again.\<close>

definition draws :: "nat \<Rightarrow> double" where
  "draws i = (int (i mod 8), - 3)"

text \<open>Test 4: John logs in.\<close>

definition john_in :: Auth where
  "john_in = snd (login draws ''john@example.com'' (js ''password123'') with_john)"

text \<open>Test 8: John logs out.\<close>

definition john_out :: Auth where
  "john_out = snd (logout ''john@example.com'' john_in)"

text \<open>Tests 2 and 4 as a run.\<close>

definition signup_then_login :: "Call list" where
  "signup_then_login =
     [Signup ''John Doe'' ''john@example.com'' (js ''password123'') ''admin@example.com'',
      Login draws ''john@example.com'' (js ''password123'')]"

subsection \<open>Other states\<close>

text \<open>A state seeded with a user whose role is neither \<open>'ADMIN'\<close> nor \<open>'USER'\<close>.\<close>

definition with_guest :: Auth where
  "with_guest = auth0\<lparr>userTable := (userTable auth0)(''guest@example.com'' \<mapsto>
     \<lparr>name = ''Guest'', password = hashPassword (js ''guest123''), role = ''GUEST''\<rparr>)\<rparr>"

definition guest_login :: "Call list" where
  "guest_login = [Login draws ''guest@example.com'' (js ''guest123'')]"

text \<open>Every user record has one of the two roles.\<close>

definition known_roles :: "Auth \<Rightarrow> bool" where
  "known_roles s = (\<forall>e u. userTable s e = Some u \<longrightarrow> role u = ''ADMIN'' \<or> role u = ''USER'')"

text \<open>Sam is signed up with a password that is a single unpaired surrogate.\<close>

definition with_sam :: Auth where
  "with_sam = snd (signup ''Sam'' ''sam@example.com'' [0xD800] ''admin@example.com'' seeded)"

section \<open>Facts about the helpers\<close>

lemma success_failure [simp]: "\<not> success (failure msg)"
  by (simp add: failure_def)

lemma error_failure [simp]: "error (failure msg) = Some msg"
  by (simp add: failure_def)

subsection \<open>The states of the script\<close>

lemma seeded_admin:
  "userTable seeded ''admin@example.com'' =
     Some \<lparr>name = ''Admin'', password = hashPassword (js ''admin123''), role = ''ADMIN''\<rparr>"
  by (simp add: seeded_def auth0_def)

lemma seeded_john: "userTable seeded ''john@example.com'' = None"
  by (simp add: seeded_def auth0_def)

lemma seeded_sessions: "sessionTable seeded = Map.empty"
  by (simp add: seeded_def auth0_def)

lemma with_john_eq:
  "with_john = seeded\<lparr>userTable := (userTable seeded)(''john@example.com'' \<mapsto>
     \<lparr>name = ''John Doe'', password = hashPassword (js ''password123''), role = ''USER''\<rparr>)\<rparr>"
  by (simp add: with_john_def signup_def seeded_admin seeded_john Let_def)

lemma with_john_john:
  "userTable with_john ''john@example.com'' =
     Some \<lparr>name = ''John Doe'', password = hashPassword (js ''password123''), role = ''USER''\<rparr>"
  by (simp add: with_john_eq)

lemma with_john_admin:
  "userTable with_john ''admin@example.com'' =
     Some \<lparr>name = ''Admin'', password = hashPassword (js ''admin123''), role = ''ADMIN''\<rparr>"
  by (simp add: with_john_eq seeded_admin)

lemma with_john_nobody: "userTable with_john ''nobody@example.com'' = None"
  by (simp add: with_john_eq seeded_def auth0_def)

lemma with_john_sessions: "sessionTable with_john = Map.empty"
  by (simp add: with_john_eq seeded_sessions)

lemma john_in_eq:
  "john_in = with_john\<lparr>sessionTable := (sessionTable with_john)(''john@example.com'' \<mapsto>
     \<lparr>token = generateToken 32 draws, loggedIn = True\<rparr>)\<rparr>"
  by (simp add: john_in_def login_def with_john_john Let_def)

lemma john_in_session:
  "sessionTable john_in ''john@example.com'' =
     Some \<lparr>token = generateToken 32 draws, loggedIn = True\<rparr>"
  by (simp add: john_in_eq)

lemma john_in_john:
  "userTable john_in ''john@example.com'' =
     Some \<lparr>name = ''John Doe'', password = hashPassword (js ''password123''), role = ''USER''\<rparr>"
  by (simp add: john_in_eq with_john_john)

lemma john_out_eq:
  "john_out = john_in\<lparr>sessionTable := (sessionTable john_in)(''john@example.com'' \<mapsto>
     \<lparr>token = generateToken 32 draws, loggedIn = False\<rparr>)\<rparr>"
  by (simp add: john_out_def logout_def john_in_session)

lemma john_out_session:
  "sessionTable john_out ''john@example.com'' =
     Some \<lparr>token = generateToken 32 draws, loggedIn = False\<rparr>"
  by (simp add: john_out_eq)

lemma draws_unit: "\<forall>i. unit_double (draws i)"
proof
  fix i :: nat
  have "i mod 8 < 8" by simp
  then have "int (i mod 8) < 8" by linarith
  then show "unit_double (draws i)"
    by (simp add: draws_def unit_double_def)
qed

lemma run_Cons: "run (c # cs) s = run cs (snd (exec c s))"
  by (simp add: run_def)

lemma run_signup_then_login: "run signup_then_login seeded = john_in"
  by (simp add: run_def signup_then_login_def with_john_def john_in_def)

section \<open>hashPassword\<close>

text \<open>Appending the letter \<open>x\<close> to a plaintext appends the byte 0x78 to the data hashed.\<close>

lemma not_low_x: "\<not> is_low 0x78"
  by (simp add: is_low_def)

lemma encode_x: "encode [0x78] = [0x78]"
  by (simp add: encode_scalar_def lone_def is_low_def is_high_def)

lemma encode_append_x: "encode (p @ [0x78]) = encode p @ [0x78]"
proof (induction p rule: encode.induct)
  case 1
  show ?case using encode_x by simp
next
  case (2 u)
  show ?case using encode_x not_low_x by simp
next
  case (3 u l us)
  then show ?case by simp
qed

lemma length_sha256: "length (sha256 m) = 32"
  by (simp add: sha256_def word_bytes_def split: prod.splits)

lemma hexDigits_nth: "n < 16 \<Longrightarrow> hexDigits ! n \<in> set hexDigits"
  by (rule nth_mem) (simp add: hexDigits_def)

text \<open>A byte is rendered as exactly two hexadecimal digits.\<close>

lemma toString16_byte:
  assumes "n < 256"
  shows "\<exists>c \<in> set hexDigits. \<exists>d \<in> set hexDigits. padStart 2 (CHR ''0'') (toString16 n) = [c, d]"
proof (cases "n < 16")
  case True
  then have "padStart 2 (CHR ''0'') (toString16 n) = [CHR ''0'', hexDigits ! n]"
    by (simp add: toString16.simps [of n] padStart_def)
  moreover have "CHR ''0'' \<in> set hexDigits"
    by (simp add: hexDigits_def)
  ultimately show ?thesis
    using True hexDigits_nth by auto
next
  case False
  with assms have d: "n div 16 < 16" by simp
  have m: "n mod 16 < 16" by simp
  from False d have "toString16 n = [hexDigits ! (n div 16), hexDigits ! (n mod 16)]"
    by (simp add: toString16.simps [of n] toString16.simps [of "n div 16"])
  then have "padStart 2 (CHR ''0'') (toString16 n) =
      [hexDigits ! (n div 16), hexDigits ! (n mod 16)]"
    by (simp add: padStart_def)
  with hexDigits_nth [OF d] hexDigits_nth [OF m] show ?thesis
    by auto
qed

lemma unat_byte: "unat (b :: u8) < 256"
  using unsigned_less [of b, where ?'a = nat] by simp

lemma concat_pairs:
  assumes "\<forall>x \<in> set xs. \<exists>c \<in> A. \<exists>d \<in> A. f x = [c, d]"
  shows "length (concat (map f xs)) = 2 * length xs \<and> set (concat (map f xs)) \<subseteq> A"
  using assms by (induction xs) auto

text \<open>
  Claim C8. \<open>hashPassword\<close> reads nothing but its argument, so equal plaintexts give equal
  digests, and for every plaintext the digest is a string of exactly 64 characters, each
  one of the lowercase hexadecimal digits \<open>0\<close> to \<open>9\<close> and \<open>a\<close> to \<open>f\<close>.
\<close>

theorem hashPassword_hex64:
  "(p = q \<longrightarrow> hashPassword p = hashPassword q) \<and>
   length (hashPassword p) = 64 \<and>
   set (hashPassword p) \<subseteq> set ''0123456789abcdef''"
proof -
  have "\<forall>b \<in> set (sha256 (encode p)). \<exists>c \<in> set hexDigits. \<exists>d \<in> set hexDigits.
          padStart 2 (CHR ''0'') (toString16 (unat b)) = [c, d]"
    using toString16_byte unat_byte by blast
  from concat_pairs [OF this] show ?thesis
    by (simp add: hashPassword_def Let_def length_sha256 hexDigits_def)
qed

theorem hashPassword_hex64_witness:
  "js ''password123'' = js ''password123'' \<and>
   hashPassword (js ''password123'') = hashPassword (js ''password123'') \<and>
   length (hashPassword (js ''password123'')) = 64 \<and>
   set (hashPassword (js ''password123'')) \<subseteq> set ''0123456789abcdef''"
  using hashPassword_hex64 [of "js ''password123''" "js ''password123''"]
  by simp

text \<open>
  The digest of \<open>password123\<close> is the one the README prints for Test 2; the second
  digest is that of the new password of Test 6.
\<close>

lemma hash_password123:
  "hashPassword (js ''password123'') =
     ''ef92b778bafe771e89245b89ecbc08a44a4e166c06659911881f383d4473e94f''"
  by code_simp

lemma hash_newpass456:
  "hashPassword (js ''newpass456'') =
     ''0b60603bdc863c8b92dd32381391e65c53b364f8a8989fe1ceaad41803eb5fa3''"
  by code_simp

lemma hash_old_new: "hashPassword (js ''password123'') \<noteq> hashPassword (js ''newpass456'')"
  by (simp add: hash_password123 hash_newpass456)

section \<open>generateToken\<close>

lemma foldl_append_concat:
  "foldl (\<lambda>tok i. tok @ f i) acc xs = acc @ concat (map f xs)"
  by (induction xs arbitrary: acc) simp_all

lemma generateToken_concat:
  "generateToken len rnd =
     concat (map (\<lambda>i. charAt chars (Math_floor (mul_double (rnd i) (length chars)))) [0..<len])"
  by (simp add: generateToken_def foldl_append_concat)

lemma length_chars: "length chars = 62"
  by (simp add: chars_def)

text \<open>
  The rounded product of a draw and 62 has its floor among 0, ..., 61: rounding up never
  reaches 62.
\<close>

lemma half_less: "(n::int) < 2 * X \<Longrightarrow> n div 2 < X"
  by linarith

lemma excess_le: "0 \<le> n \<Longrightarrow> n < 2 ^ 53 * 2 ^ j \<Longrightarrow> excess n \<le> j"
proof (induction j arbitrary: n)
  case 0
  then show ?case by (simp add: excess.simps [of n])
next
  case (Suc j)
  show ?case
  proof (cases "n < 2 ^ 53")
    case True
    then show ?thesis by (simp add: excess.simps [of n])
  next
    case False
    from Suc.prems have "n < 2 * (2 ^ 53 * 2 ^ j)" by simp
    then have "n div 2 < 2 ^ 53 * 2 ^ j" by (rule half_less)
    moreover from Suc.prems have "0 \<le> n div 2" by simp
    ultimately have "excess (n div 2) \<le> j" using Suc.IH by blast
    with False show ?thesis by (simp add: excess.simps [of n])
  qed
qed

lemma excess_pos: "\<not> n < 2 ^ 53 \<Longrightarrow> 0 < excess n"
  by (simp add: excess.simps [of n])

lemma round_below:
  fixes m q r P B :: int
  assumes P: "1 \<le> P" "P \<le> 32" and B: "0 < B"
    and m: "m < 2 * P * B"
    and n: "62 * m = q * (2 * P) + r" and r: "0 \<le> r" "r < 2 * P"
  shows "q < 62 * B \<and> (P \<le> r \<longrightarrow> q + 1 < 62 * B)"
proof -
  define X where "X = P * B"
  define Y where "Y = q * P"
  have mX: "m < 2 * X" using m by (simp add: X_def algebra_simps)
  have nY: "62 * m = 2 * Y + r" using n by (simp add: Y_def algebra_simps)
  have q: "q < 62 * B"
  proof (rule ccontr)
    assume "\<not> q < 62 * B"
    then have "62 * B \<le> q" by simp
    then have "62 * B * P \<le> q * P" using P by (intro mult_right_mono) auto
    moreover have "62 * B * P = 62 * X" by (simp add: X_def algebra_simps)
    ultimately have "62 * X \<le> Y" by (simp only: Y_def)
    with mX nY r show False by linarith
  qed
  have "q + 1 < 62 * B" if "P \<le> r"
  proof (rule ccontr)
    assume "\<not> q + 1 < 62 * B"
    with q have "q = 62 * B - 1" by simp
    then have "Y = (62 * B - 1) * P" by (simp only: Y_def)
    also have "\<dots> = 62 * X - P" by (simp add: X_def algebra_simps)
    finally have "Y = 62 * X - P" .
    with nY that mX P show False by linarith
  qed
  with q show ?thesis by blast
qed

lemma int_div_less:
  fixes a b c :: int
  assumes "0 < b" and "a < c * b"
  shows "a div b < c"
proof (rule ccontr)
  assume "\<not> a div b < c"
  then have "c \<le> a div b" by simp
  then have "c * b \<le> a div b * b" using assms(1) by (intro mult_right_mono) auto
  moreover have "a div b * b + a mod b = a" by simp
  moreover have "0 \<le> a mod b" using assms(1) by simp
  ultimately show False using assms(2) by linarith
qed

lemma div_nonneg_62: "(0::int) \<le> m \<Longrightarrow> 0 \<le> m * 62 div 2 ^ E"
  by (simp add: pos_imp_zdiv_nonneg_iff)

lemma exponent_ge:
  assumes "(2::int) ^ 53 \<le> 62 * 2 ^ E"
  shows "7 \<le> E"
proof (rule ccontr)
  assume "\<not> 7 \<le> E"
  then have "E \<le> 6" by simp
  then have "(2::int) ^ E \<le> 2 ^ 6" by (intro power_increasing) auto
  with assms show False by simp
qed

lemma floor_mul_double:
  assumes "unit_double d"
  shows "0 \<le> Math_floor (mul_double d 62) \<and> Math_floor (mul_double d 62) < 62"
proof -
  obtain m e where d: "d = (m, e)" by (cases d)
  define E where "E = nat (- e)"
  from assms d have m0: "0 \<le> m" and m53: "m < 2 ^ 53" and e: "e < 0" and mE: "m < 2 ^ E"
    by (simp_all add: unit_double_def E_def)
  show ?thesis
  proof (cases "m * 62 < 2 ^ 53")
    case True
    then have t: "mul_double d 62 = (m * 62, e)" by (simp add: mul_double_def d)
    have "m * 62 < 62 * 2 ^ E" using mE by simp
    then have "m * 62 div 2 ^ E < 62" by (intro int_div_less) auto
    moreover have "0 \<le> m * 62 div 2 ^ E" using m0 by (rule div_nonneg_62)
    ultimately show ?thesis using e by (simp add: t Math_floor_def E_def)
  next
    case False
    define n where "n = m * 62"
    define k where "k = excess n"
    define q where "q = n div 2 ^ k"
    define r where "r = n mod 2 ^ k"
    define q' where "q' = (if 2 ^ (k - 1) < r \<or> (r = 2 ^ (k - 1) \<and> odd q) then q + 1 else q)"
    have t: "mul_double d 62 = (q', e + int k)"
      using False by (simp add: mul_double_def d Let_def q'_def q_def r_def k_def n_def)
    have "n < 2 ^ 53 * 2 ^ 6" using m53 by (simp add: n_def)
    moreover have n0: "0 \<le> n" using m0 by (simp add: n_def)
    ultimately have k6: "k \<le> 6" unfolding k_def by (rule excess_le [rotated])
    have k1: "1 \<le> k" using excess_pos [of n] False by (simp add: k_def n_def)
    have "(2::int) ^ 53 \<le> 62 * 2 ^ E" using False mE by (simp add: n_def)
    then have E6: "7 \<le> E" by (rule exponent_ge)
    define P :: int where "P = 2 ^ (k - 1)"
    define B :: int where "B = 2 ^ (E - k)"
    have k2: "(2::int) ^ k = 2 * P"
      using k1 by (simp add: P_def power_Suc [symmetric] del: power_Suc)
    have E2: "(2::int) ^ E = 2 * P * B"
    proof -
      have "(2::int) ^ E = 2 ^ (k + (E - k))" using k6 E6 by simp
      then show ?thesis by (simp only: power_add k2 B_def)
    qed
    have P1: "1 \<le> P" by (simp add: P_def)
    have "P \<le> 2 ^ 5" unfolding P_def using k6 by (intro power_increasing) auto
    then have P32: "P \<le> 32" by simp
    have B0: "0 < B" by (simp add: B_def)
    have "n = q * 2 ^ k + r" unfolding q_def r_def by (rule div_mult_mod_eq [symmetric])
    then have "m * 62 = q * (2 * P) + r" unfolding k2 n_def .
    then have nqr: "62 * m = q * (2 * P) + r" by linarith
    have r0: "0 \<le> r" and r2: "r < 2 * P"
      using k2 P1 by (simp_all add: r_def)
    from round_below [OF P1 P32 B0 _ nqr r0 r2] mE E2
    have qB: "q < 62 * B" and qB1: "P \<le> r \<longrightarrow> q + 1 < 62 * B" by auto
    have q'B: "q' < 62 * B"
      using qB qB1 by (auto simp: q'_def P_def)
    have q0: "0 \<le> q" using n0 by (simp add: q_def pos_imp_zdiv_nonneg_iff)
    then have q'0: "0 \<le> q'" by (simp add: q'_def)
    have neg: "e + int k < 0" and Ek: "nat (- e - int k) = E - k"
      using e k6 E6 by (simp_all add: E_def)
    have "q' div 2 ^ (E - k) < 62" using q'B by (intro int_div_less) (auto simp: B_def)
    moreover have "0 \<le> q' div 2 ^ (E - k)" using q'0 by (simp add: pos_imp_zdiv_nonneg_iff)
    ultimately show ?thesis using neg by (simp add: t Math_floor_def Ek)
  qed
qed

lemma charAt_draw:
  assumes "unit_double d"
  shows "\<exists>c \<in> set chars. charAt chars (Math_floor (mul_double d (length chars))) = [c]"
proof -
  from floor_mul_double [OF assms]
  have "0 \<le> Math_floor (mul_double d (length chars))"
    and "nat (Math_floor (mul_double d (length chars))) < length chars"
    by (simp_all add: nat_less_iff length_chars)
  then show ?thesis
    by (auto simp: charAt_def)
qed

lemma concat_singletons:
  assumes "\<forall>x \<in> set xs. \<exists>c \<in> A. f x = [c]"
  shows "length (concat (map f xs)) = length xs \<and> set (concat (map f xs)) \<subseteq> A"
  using assms by (induction xs) auto

text \<open>
  With draws in the unit interval, as \<open>Math.random\<close> gives them, a token has the length
  asked for and only characters of \<open>chars\<close>.
\<close>

lemma generateToken_alphanumeric:
  assumes "\<forall>i. unit_double (rnd i)"
  shows "length (generateToken len rnd) = len \<and> set (generateToken len rnd) \<subseteq> set chars"
proof -
  have "\<forall>i \<in> set [0..<len].
          \<exists>c \<in> set chars. charAt chars (Math_floor (mul_double (rnd i) (length chars))) = [c]"
    using assms charAt_draw by blast
  from concat_singletons [OF this] show ?thesis
    by (simp add: generateToken_concat)
qed

text \<open>
  A draw for which the exact product with 62 is just below 32 and the rounded product is
  32: the character is the one at index 32.
\<close>

lemma generateToken_rounds:
  "generateToken 1 (\<lambda>i. (4648877034705028, - 53)) = ''g''"
  by code_simp

text \<open>
  Claim C9. The claim asks for tokens drawn from a secure random generator. The source
  draws every character with \<open>Math.random\<close> (line 26 of Auth.js), and nothing else
  enters a token: the token is a function of these draws. For the draws 0, 1/8, ..., 7/8
  repeated, the token is the one below.
\<close>

theorem generateToken_of_draws:
  "generateToken 32 draws = ''AHPXfmu2AHPXfmu2AHPXfmu2AHPXfmu2''"
  by code_simp

section \<open>signup\<close>

text \<open>
  Claim C1. \<open>signup\<close> evaluates its checks in order and the first failing check decides
  the result: an \<open>adminEmail\<close> that is no key of \<open>userTable\<close> gives the error
  "Admin does not exist" (AdminNotFound); otherwise a record at \<open>adminEmail\<close> whose role
  is not \<open>ADMIN\<close> gives "You are not authorized to do that!" (NotAuthorized); otherwise an
  \<open>email\<close> that is already a key gives "User with this email already exists"
  (DuplicateUser); otherwise the call succeeds, puts the record with the given name, the
  digest of the password and role \<open>USER\<close> under \<open>email\<close>, and leaves \<open>sessionTable\<close> as
  it was. Every failure leaves the state as it was.
\<close>

theorem signup_checks_in_order:
  "(userTable s adminEmail = None \<longrightarrow>
      signup nm e pw adminEmail s = (failure ''Admin does not exist'', s)) \<and>
   (\<forall>admin. userTable s adminEmail = Some admin \<and> role admin \<noteq> ''ADMIN'' \<longrightarrow>
      signup nm e pw adminEmail s = (failure ''You are not authorized to do that!'', s)) \<and>
   (\<forall>admin. userTable s adminEmail = Some admin \<and> role admin = ''ADMIN'' \<and>
        userTable s e \<noteq> None \<longrightarrow>
      signup nm e pw adminEmail s = (failure ''User with this email already exists'', s)) \<and>
   (\<forall>admin. userTable s adminEmail = Some admin \<and> role admin = ''ADMIN'' \<and>
        userTable s e = None \<longrightarrow>
      success (fst (signup nm e pw adminEmail s)) \<and>
      userTable (snd (signup nm e pw adminEmail s)) =
        (userTable s)(e \<mapsto> \<lparr>name = nm, password = hashPassword pw, role = ''USER''\<rparr>) \<and>
      sessionTable (snd (signup nm e pw adminEmail s)) = sessionTable s)"
  by (simp add: signup_def Let_def)

text \<open>
  The four branches on the script's states: an unknown admin on the empty state, Test 10
  (John is no admin), Test 3 (John exists already) and Test 2 (John is created).
\<close>

theorem signup_checks_in_order_witness:
  "userTable auth0 ''nobody@example.com'' = None \<and>
   signup ''Fake'' ''fake@example.com'' (js ''1234'') ''nobody@example.com'' auth0 =
     (failure ''Admin does not exist'', auth0) \<and>
   role (the (userTable with_john ''john@example.com'')) \<noteq> ''ADMIN'' \<and>
   signup ''Fake'' ''fake@example.com'' (js ''1234'') ''john@example.com'' with_john =
     (failure ''You are not authorized to do that!'', with_john) \<and>
   userTable with_john ''john@example.com'' \<noteq> None \<and>
   signup ''John Doe'' ''john@example.com'' (js ''password123'') ''admin@example.com'' with_john =
     (failure ''User with this email already exists'', with_john) \<and>
   userTable seeded ''john@example.com'' = None \<and>
   success (fst (signup ''John Doe'' ''john@example.com'' (js ''password123'')
     ''admin@example.com'' seeded)) \<and>
   userTable (snd (signup ''John Doe'' ''john@example.com'' (js ''password123'')
     ''admin@example.com'' seeded)) ''john@example.com'' =
     Some \<lparr>name = ''John Doe'', password = hashPassword (js ''password123''), role = ''USER''\<rparr> \<and>
   sessionTable (snd (signup ''John Doe'' ''john@example.com'' (js ''password123'')
     ''admin@example.com'' seeded)) = Map.empty"
proof -
  have a: "userTable auth0 ''nobody@example.com'' = None"
    by (simp add: auth0_def)
  note t1 = signup_checks_in_order [of auth0 "''nobody@example.com''" "''Fake''"
      "''fake@example.com''" "js ''1234''"]
  note t2 = signup_checks_in_order [of with_john "''john@example.com''" "''Fake''"
      "''fake@example.com''" "js ''1234''"]
  note t3 = signup_checks_in_order [of with_john "''admin@example.com''" "''John Doe''"
      "''john@example.com''" "js ''password123''"]
  note t4 = signup_checks_in_order [of seeded "''admin@example.com''" "''John Doe''"
      "''john@example.com''" "js ''password123''"]
  show ?thesis
    using a t1 t2 t3 t4
    by (simp add: with_john_john with_john_admin seeded_admin seeded_john seeded_sessions)
qed

text \<open>
  Claim C10. The object a successful \<open>signup\<close> returns carries in \<open>data\<close> the very record
  that was stored under \<open>email\<close>: name, role \<open>USER\<close> and also the \<open>password\<close> field,
  which holds the digest of the password.
\<close>

theorem signup_result_exposes_hash:
  assumes "success (fst (signup nm e pw adminEmail s))"
  shows "data (fst (signup nm e pw adminEmail s)) =
           Some \<lparr>name = nm, password = hashPassword pw, role = ''USER''\<rparr> \<and>
         userTable (snd (signup nm e pw adminEmail s)) e =
           data (fst (signup nm e pw adminEmail s)) \<and>
         email (fst (signup nm e pw adminEmail s)) = Some e"
  using assms
  by (auto simp: signup_def Let_def split: option.splits if_splits)

theorem signup_result_exposes_hash_witness:
  "success (fst (signup ''John Doe'' ''john@example.com'' (js ''password123'')
     ''admin@example.com'' seeded)) \<and>
   data (fst (signup ''John Doe'' ''john@example.com'' (js ''password123'')
     ''admin@example.com'' seeded)) =
     Some \<lparr>name = ''John Doe'',
       password = ''ef92b778bafe771e89245b89ecbc08a44a4e166c06659911881f383d4473e94f'',
       role = ''USER''\<rparr> \<and>
   userTable with_john ''john@example.com'' =
     data (fst (signup ''John Doe'' ''john@example.com'' (js ''password123'')
       ''admin@example.com'' seeded))"
proof -
  have ok: "success (fst (signup ''John Doe'' ''john@example.com'' (js ''password123'')
      ''admin@example.com'' seeded))"
    by (simp add: signup_def seeded_admin seeded_john Let_def)
  from signup_result_exposes_hash [OF ok] ok show ?thesis
    by (simp add: hash_password123 with_john_def)
qed

section \<open>login\<close>

text \<open>
  After a successful \<open>signup\<close>, a \<open>login\<close> with the same email and password succeeds, and
  its token has 32 characters, all of them letters or digits.
\<close>

lemma login_after_signup:
  assumes ok: "success (fst (signup nm e pw adminEmail s))"
    and rnd: "\<forall>i. unit_double (rnd i)"
  shows "\<exists>tok. fst (login rnd e pw (snd (signup nm e pw adminEmail s))) =
           \<lparr>success = True, error = None, message = Some ''User logged in!'',
             resultToken = Some tok, email = None, data = None\<rparr> \<and>
           length tok = 32 \<and> set tok \<subseteq> set chars"
proof -
  from ok have "userTable (snd (signup nm e pw adminEmail s)) e =
      Some \<lparr>name = nm, password = hashPassword pw, role = ''USER''\<rparr>"
    by (auto simp: signup_def Let_def split: option.splits if_splits)
  then have "fst (login rnd e pw (snd (signup nm e pw adminEmail s))) =
      \<lparr>success = True, error = None, message = Some ''User logged in!'',
        resultToken = Some (generateToken 32 rnd), email = None, data = None\<rparr>"
    by (simp add: login_def Let_def)
  with generateToken_alphanumeric [OF rnd, of 32] show ?thesis
    by blast
qed

text \<open>
  A \<open>login\<close> with another password fails with "Wrong password" as soon as the two
  digests differ.
\<close>

lemma login_other_password:
  assumes "success (fst (signup nm e pw adminEmail s))"
    and "hashPassword pw' \<noteq> hashPassword pw"
  shows "login rnd e pw' (snd (signup nm e pw adminEmail s)) =
           (failure ''Wrong password'', snd (signup nm e pw adminEmail s))"
  using assms
  by (auto simp: signup_def login_def Let_def split: option.splits if_splits)

section \<open>changePassword\<close>

text \<open>
  Claim C6. A successful \<open>changePassword\<close> replaces the record under \<open>email\<close> by one with
  the same name, the same role and the digest of the new password, and leaves
  \<open>sessionTable\<close> as it was, so a session of that email keeps its token and its flag.
\<close>

theorem changePassword_frame:
  assumes "success (fst (changePassword e oldPass newPass s))"
  shows "\<exists>user. userTable s e = Some user \<and>
           userTable (snd (changePassword e oldPass newPass s)) =
             (userTable s)(e \<mapsto>
               \<lparr>name = name user, password = hashPassword newPass, role = role user\<rparr>) \<and>
           sessionTable (snd (changePassword e oldPass newPass s)) = sessionTable s"
  using assms
  by (auto simp: changePassword_def Let_def split: option.splits if_splits)

lemma changePassword_john_in:
  "success (fst (changePassword ''john@example.com'' (js ''password123'') (js ''newpass456'')
     john_in))"
  by (simp add: changePassword_def john_in_john Let_def)

theorem changePassword_frame_witness:
  "success (fst (changePassword ''john@example.com'' (js ''password123'') (js ''newpass456'')
     john_in)) \<and>
   userTable (snd (changePassword ''john@example.com'' (js ''password123'') (js ''newpass456'')
     john_in)) ''john@example.com'' =
     Some \<lparr>name = ''John Doe'', password = hashPassword (js ''newpass456''), role = ''USER''\<rparr> \<and>
   sessionTable (snd (changePassword ''john@example.com'' (js ''password123'')
     (js ''newpass456'') john_in)) ''john@example.com'' =
     Some \<lparr>token = generateToken 32 draws, loggedIn = True\<rparr>"
  using changePassword_frame [OF changePassword_john_in] changePassword_john_in
  by (auto simp: john_in_john john_in_session)

text \<open>
  Claim C4, as amended. After a successful \<open>changePassword\<close>, a \<open>login\<close> with the new
  password succeeds; a \<open>login\<close> with the old password fails with "Wrong password"
  (WrongPassword) when the digests of the old and the new password differ, and succeeds
  when they are equal, as they are when the new password is the old one.
\<close>

theorem changePassword_then_login:
  assumes "success (fst (changePassword e oldPass newPass s))"
  shows "success (fst (login rnd e newPass (snd (changePassword e oldPass newPass s)))) \<and>
         (hashPassword oldPass \<noteq> hashPassword newPass \<longrightarrow>
            fst (login rnd e oldPass (snd (changePassword e oldPass newPass s))) =
              failure ''Wrong password'') \<and>
         (hashPassword oldPass = hashPassword newPass \<longrightarrow>
            success (fst (login rnd e oldPass (snd (changePassword e oldPass newPass s)))))"
  using assms
  by (auto simp: changePassword_def login_def Let_def split: option.splits if_splits)

lemma changePassword_with_john:
  "success (fst (changePassword ''john@example.com'' (js ''password123'') newPass with_john))"
  by (simp add: changePassword_def with_john_john Let_def)

text \<open>Tests 6 and 7, and the same call with the old password as the new one.\<close>

theorem changePassword_then_login_witness:
  "success (fst (changePassword ''john@example.com'' (js ''password123'') (js ''newpass456'')
     with_john)) \<and>
   hashPassword (js ''password123'') \<noteq> hashPassword (js ''newpass456'') \<and>
   success (fst (login draws ''john@example.com'' (js ''newpass456'')
     (snd (changePassword ''john@example.com'' (js ''password123'') (js ''newpass456'')
       with_john)))) \<and>
   fst (login draws ''john@example.com'' (js ''password123'')
     (snd (changePassword ''john@example.com'' (js ''password123'') (js ''newpass456'')
       with_john))) = failure ''Wrong password'' \<and>
   hashPassword (js ''password123'') = hashPassword (js ''password123'') \<and>
   success (fst (login draws ''john@example.com'' (js ''password123'')
     (snd (changePassword ''john@example.com'' (js ''password123'') (js ''password123'')
       with_john))))"
proof -
  note t1 = changePassword_then_login [OF changePassword_with_john [of "js ''newpass456''"],
      of draws]
  note t2 = changePassword_then_login [OF changePassword_with_john [of "js ''password123''"],
      of draws]
  from t1 t2 hash_old_new changePassword_with_john [of "js ''newpass456''"] show ?thesis
    by blast
qed

text \<open>
  Two plaintexts that are different strings with the same digest: an unpaired surrogate
  is encoded as U+FFFD, whichever surrogate it is.
\<close>

lemma hash_lone_surrogates: "hashPassword [0xDFFF] = hashPassword [0xD800]"
  by (simp add: hashPassword_def lone_def is_high_def is_low_def)

lemma with_sam_sam:
  "userTable with_sam ''sam@example.com'' =
     Some \<lparr>name = ''Sam'', password = hashPassword [0xD800], role = ''USER''\<rparr>"
  by (simp add: with_sam_def signup_def seeded_def auth0_def Let_def)

text \<open>
  The claim as it was stated fails when the new password is the old one: the change
  succeeds and the old password still logs in. It also fails for a new password that is
  another string with the same digest.
\<close>

theorem changePassword_same_password_counterexample:
  "success (fst (changePassword ''john@example.com'' (js ''password123'') (js ''password123'')
     with_john)) \<and>
   success (fst (login draws ''john@example.com'' (js ''password123'')
     (snd (changePassword ''john@example.com'' (js ''password123'') (js ''password123'')
       with_john)))) \<and>
   fst (login draws ''john@example.com'' (js ''password123'')
     (snd (changePassword ''john@example.com'' (js ''password123'') (js ''password123'')
       with_john))) \<noteq> failure ''Wrong password'' \<and>
   [0xD800 :: 16 word] \<noteq> [0xDFFF] \<and>
   success (fst (changePassword ''sam@example.com'' [0xD800] [0xDFFF] with_sam)) \<and>
   success (fst (login draws ''sam@example.com'' [0xD800]
     (snd (changePassword ''sam@example.com'' [0xD800] [0xDFFF] with_sam)))) \<and>
   fst (login draws ''sam@example.com'' [0xD800]
     (snd (changePassword ''sam@example.com'' [0xD800] [0xDFFF] with_sam))) \<noteq>
     failure ''Wrong password''"
  by (simp add: changePassword_def login_def with_john_john with_sam_sam hash_lone_surrogates
        Let_def failure_def)

section \<open>logout\<close>

text \<open>
  Claim C5. \<open>logout\<close> fails with "User is not logged in" (NotLoggedIn) when the email has
  no session record and with "User is already logged out" (AlreadyLoggedOut) when the
  record's flag is false. Otherwise it succeeds and only sets the flag of that record to
  false; the record stays in \<open>sessionTable\<close>, so a second \<open>logout\<close> right after it fails
  with "User is already logged out".
\<close>

theorem logout_checks:
  "(sessionTable s e = None \<longrightarrow> logout e s = (failure ''User is not logged in'', s)) \<and>
   (\<forall>ses. sessionTable s e = Some ses \<and> \<not> loggedIn ses \<longrightarrow>
      logout e s = (failure ''User is already logged out'', s)) \<and>
   (\<forall>ses. sessionTable s e = Some ses \<and> loggedIn ses \<longrightarrow>
      success (fst (logout e s)) \<and>
      snd (logout e s) = s\<lparr>sessionTable := (sessionTable s)(e \<mapsto> ses\<lparr>loggedIn := False\<rparr>)\<rparr> \<and>
      fst (logout e (snd (logout e s))) = failure ''User is already logged out'')"
  by (simp add: logout_def)

text \<open>Before Test 4 John has no session; Test 8 logs him out; Test 9 is the second logout.\<close>

theorem logout_checks_witness:
  "sessionTable with_john ''john@example.com'' = None \<and>
   logout ''john@example.com'' with_john = (failure ''User is not logged in'', with_john) \<and>
   \<not> loggedIn (the (sessionTable john_out ''john@example.com'')) \<and>
   logout ''john@example.com'' john_out = (failure ''User is already logged out'', john_out) \<and>
   loggedIn (the (sessionTable john_in ''john@example.com'')) \<and>
   success (fst (logout ''john@example.com'' john_in)) \<and>
   sessionTable (snd (logout ''john@example.com'' john_in)) ''john@example.com'' =
     Some \<lparr>token = generateToken 32 draws, loggedIn = False\<rparr> \<and>
   fst (logout ''john@example.com'' (snd (logout ''john@example.com'' john_in))) =
     failure ''User is already logged out''"
proof -
  let ?j = "''john@example.com''"
  let ?on = "\<lparr>token = generateToken 32 draws, loggedIn = True\<rparr>"
  let ?off = "\<lparr>token = generateToken 32 draws, loggedIn = False\<rparr>"
  have h1: "sessionTable with_john ?j = None"
    by (simp add: with_john_sessions)
  have h2: "sessionTable john_out ?j = Some ?off \<and> \<not> loggedIn ?off"
    by (simp add: john_out_session)
  have h3: "sessionTable john_in ?j = Some ?on \<and> loggedIn ?on"
    by (simp add: john_in_session)
  from logout_checks [of with_john ?j] h1
  have c1: "logout ?j with_john = (failure ''User is not logged in'', with_john)"
    by blast
  from logout_checks [of john_out ?j] h2
  have c2: "logout ?j john_out = (failure ''User is already logged out'', john_out)"
    by blast
  from logout_checks [of john_in ?j] h3
  have c3: "success (fst (logout ?j john_in))"
    and c4: "snd (logout ?j john_in) =
      john_in\<lparr>sessionTable := (sessionTable john_in)(?j \<mapsto> ?on\<lparr>loggedIn := False\<rparr>)\<rparr>"
    and c5: "fst (logout ?j (snd (logout ?j john_in))) = failure ''User is already logged out''"
    by blast+
  have c6: "sessionTable (snd (logout ?j john_in)) ?j = Some ?off"
    by (simp add: c4)
  have g2: "\<not> loggedIn (the (sessionTable john_out ?j))"
    by (simp add: john_out_session)
  have g3: "loggedIn (the (sessionTable john_in ?j))"
    by (simp add: john_in_session)
  from h1 c1 g2 c2 g3 c3 c6 c5 show ?thesis
    by blast
qed

section \<open>All four operations\<close>

text \<open>
  Claim C2. Whichever of the four operations is called and whatever the state, a result
  with \<open>success: false\<close> comes with \<open>userTable\<close> and \<open>sessionTable\<close> exactly as they
  were before the call.
\<close>

theorem failure_leaves_state:
  assumes "exec c s = (r, s')" and "\<not> success r"
  shows "userTable s' = userTable s \<and> sessionTable s' = sessionTable s"
  using assms
  by (cases c)
     (auto simp: signup_def login_def changePassword_def logout_def Let_def
           split: option.splits if_splits)

text \<open>One failing call of each operation: Test 3, two calls for an unknown email, Test 9.\<close>

theorem failure_leaves_state_witness:
  "\<not> success (fst (exec (Signup ''John Doe'' ''john@example.com'' (js ''password123'')
       ''admin@example.com'') with_john)) \<and>
   userTable (snd (exec (Signup ''John Doe'' ''john@example.com'' (js ''password123'')
       ''admin@example.com'') with_john)) = userTable with_john \<and>
   sessionTable (snd (exec (Signup ''John Doe'' ''john@example.com'' (js ''password123'')
       ''admin@example.com'') with_john)) = sessionTable with_john \<and>
   \<not> success (fst (exec (Login draws ''nobody@example.com'' (js ''password123'')) with_john)) \<and>
   userTable (snd (exec (Login draws ''nobody@example.com'' (js ''password123'')) with_john)) =
     userTable with_john \<and>
   sessionTable (snd (exec (Login draws ''nobody@example.com'' (js ''password123'')) with_john)) =
     sessionTable with_john \<and>
   \<not> success (fst (exec (ChangePassword ''nobody@example.com'' (js ''password123'')
       (js ''newpass456'')) with_john)) \<and>
   userTable (snd (exec (ChangePassword ''nobody@example.com'' (js ''password123'')
       (js ''newpass456'')) with_john)) = userTable with_john \<and>
   sessionTable (snd (exec (ChangePassword ''nobody@example.com'' (js ''password123'')
       (js ''newpass456'')) with_john)) = sessionTable with_john \<and>
   \<not> success (fst (exec (Logout ''john@example.com'') john_out)) \<and>
   userTable (snd (exec (Logout ''john@example.com'') john_out)) = userTable john_out \<and>
   sessionTable (snd (exec (Logout ''john@example.com'') john_out)) = sessionTable john_out"
proof -
  let ?c1 = "Signup ''John Doe'' ''john@example.com'' (js ''password123'') ''admin@example.com''"
  let ?c2 = "Login draws ''nobody@example.com'' (js ''password123'')"
  let ?c3 = "ChangePassword ''nobody@example.com'' (js ''password123'') (js ''newpass456'')"
  let ?c4 = "Logout ''john@example.com''"
  have f1: "\<not> success (fst (exec ?c1 with_john))"
    by (simp add: signup_def with_john_admin with_john_john)
  have f2: "\<not> success (fst (exec ?c2 with_john))"
    by (simp add: login_def with_john_nobody)
  have f3: "\<not> success (fst (exec ?c3 with_john))"
    by (simp add: changePassword_def with_john_nobody)
  have f4: "\<not> success (fst (exec ?c4 john_out))"
    by (simp add: logout_def john_out_session)
  note t1 = failure_leaves_state [OF prod.collapse [symmetric] f1]
  note t2 = failure_leaves_state [OF prod.collapse [symmetric] f2]
  note t3 = failure_leaves_state [OF prod.collapse [symmetric] f3]
  note t4 = failure_leaves_state [OF prod.collapse [symmetric] f4]
  from f1 f2 f3 f4 t1 t2 t3 t4 show ?thesis
    by blast
qed

text \<open>A call keeps every key of \<open>sessionTable\<close> a key of \<open>userTable\<close>.\<close>

lemma exec_dom:
  assumes "dom (sessionTable s) \<subseteq> dom (userTable s)"
  shows "dom (sessionTable (snd (exec c s))) \<subseteq> dom (userTable (snd (exec c s)))"
  using assms
  by (cases c)
     (auto simp: signup_def login_def changePassword_def logout_def Let_def
           split: option.splits if_splits)

lemma run_dom:
  "dom (sessionTable s) \<subseteq> dom (userTable s) \<Longrightarrow>
   dom (sessionTable (run cs s)) \<subseteq> dom (userTable (run cs s))"
proof (induction cs arbitrary: s)
  case Nil
  then show ?case by (simp add: run_def)
next
  case (Cons c cs)
  from Cons.prems
  have "dom (sessionTable (snd (exec c s))) \<subseteq> dom (userTable (snd (exec c s)))"
    by (rule exec_dom)
  then show ?case
    unfolding run_Cons by (rule Cons.IH)
qed

text \<open>A call keeps the roles of all user records among \<open>'ADMIN'\<close> and \<open>'USER'\<close>.\<close>

lemma exec_roles:
  assumes "known_roles s"
  shows "known_roles (snd (exec c s))"
  using assms
  by (cases c)
     (auto simp: known_roles_def signup_def login_def changePassword_def logout_def Let_def
           split: option.splits if_splits)

lemma run_roles: "known_roles s \<Longrightarrow> known_roles (run cs s)"
proof (induction cs arbitrary: s)
  case Nil
  then show ?case by (simp add: run_def)
next
  case (Cons c cs)
  from Cons.prems have "known_roles (snd (exec c s))"
    by (rule exec_roles)
  then show ?case
    unfolding run_Cons by (rule Cons.IH)
qed

text \<open>
  Claim C7, as amended. Start in a state in which every key of \<open>sessionTable\<close> is a key
  of \<open>userTable\<close> and make any sequence of calls of the four operations: in the state
  reached, every key of \<open>sessionTable\<close> is a key of \<open>userTable\<close>. If moreover every
  user record of the starting state has role \<open>'ADMIN'\<close> or \<open>'USER'\<close>, then in the state
  reached the record under every key of \<open>sessionTable\<close> has role \<open>'ADMIN'\<close> or
  \<open>'USER'\<close>.
\<close>

theorem sessions_subset_users:
  assumes "dom (sessionTable s0) \<subseteq> dom (userTable s0)"
  shows "dom (sessionTable (run cs s0)) \<subseteq> dom (userTable (run cs s0)) \<and>
         (known_roles s0 \<longrightarrow>
            (\<forall>e \<in> dom (sessionTable (run cs s0)).
               \<exists>u. userTable (run cs s0) e = Some u \<and> (role u = ''ADMIN'' \<or> role u = ''USER'')))"
proof (intro conjI impI ballI)
  show sub: "dom (sessionTable (run cs s0)) \<subseteq> dom (userTable (run cs s0))"
    using assms by (rule run_dom)
  fix e
  assume roles: "known_roles s0" and e: "e \<in> dom (sessionTable (run cs s0))"
  from sub e obtain u where u: "userTable (run cs s0) e = Some u"
    by blast
  from run_roles [OF roles, of cs] u have "role u = ''ADMIN'' \<or> role u = ''USER''"
    unfolding known_roles_def by blast
  with u show "\<exists>u. userTable (run cs s0) e = Some u \<and> (role u = ''ADMIN'' \<or> role u = ''USER'')"
    by blast
qed

lemma known_roles_seeded: "known_roles seeded"
  unfolding known_roles_def
proof (intro allI impI)
  fix e u
  assume "userTable seeded e = Some u"
  then have "u = \<lparr>name = ''Admin'', password = hashPassword (js ''admin123''), role = ''ADMIN''\<rparr>"
    by (simp add: seeded_def auth0_def split: if_splits)
  then show "role u = ''ADMIN'' \<or> role u = ''USER''"
    by simp
qed

text \<open>From the seeded state, after Tests 2 and 4 John has a session and is a \<open>'USER'\<close>.\<close>

theorem sessions_subset_users_witness:
  "dom (sessionTable seeded) \<subseteq> dom (userTable seeded) \<and>
   known_roles seeded \<and>
   ''john@example.com'' \<in> dom (sessionTable (run signup_then_login seeded)) \<and>
   ''john@example.com'' \<in> dom (userTable (run signup_then_login seeded)) \<and>
   (role (the (userTable (run signup_then_login seeded) ''john@example.com'')) = ''ADMIN'' \<or>
    role (the (userTable (run signup_then_login seeded) ''john@example.com'')) = ''USER'')"
proof -
  have h: "dom (sessionTable seeded) \<subseteq> dom (userTable seeded)"
    by (simp add: seeded_sessions)
  have k: "''john@example.com'' \<in> dom (sessionTable (run signup_then_login seeded))"
    by (simp add: run_signup_then_login john_in_session domIff)
  from sessions_subset_users [OF h, of signup_then_login] k known_roles_seeded
  obtain u where u: "userTable (run signup_then_login seeded) ''john@example.com'' = Some u"
    and r: "role u = ''ADMIN'' \<or> role u = ''USER''"
    by blast
  from u have d: "''john@example.com'' \<in> dom (userTable (run signup_then_login seeded))"
    by (rule domI)
  from u r
  have "role (the (userTable (run signup_then_login seeded) ''john@example.com'')) = ''ADMIN'' \<or>
      role (the (userTable (run signup_then_login seeded) ''john@example.com'')) = ''USER''"
    by (simp only: option.sel)
  with h known_roles_seeded k d show ?thesis
    by blast
qed

text \<open>
  The claim as it was stated fails for a starting state that holds a user with another
  role: the state has no session, the user logs in, and the record under the new session
  key has role \<open>'GUEST'\<close>.
\<close>

lemma with_guest_guest:
  "userTable with_guest ''guest@example.com'' =
     Some \<lparr>name = ''Guest'', password = hashPassword (js ''guest123''), role = ''GUEST''\<rparr>"
  by (simp add: with_guest_def auth0_def)

theorem sessions_role_counterexample:
  "dom (sessionTable with_guest) \<subseteq> dom (userTable with_guest) \<and>
   sessionTable (run guest_login with_guest) ''guest@example.com'' =
     Some \<lparr>token = generateToken 32 draws, loggedIn = True\<rparr> \<and>
   userTable (run guest_login with_guest) ''guest@example.com'' =
     Some \<lparr>name = ''Guest'', password = hashPassword (js ''guest123''), role = ''GUEST''\<rparr> \<and>
   ''GUEST'' \<noteq> ''ADMIN'' \<and> ''GUEST'' \<noteq> ''USER''"
proof -
  have "sessionTable with_guest = Map.empty"
    by (simp add: with_guest_def auth0_def)
  moreover have "run guest_login with_guest =
      with_guest\<lparr>sessionTable := (sessionTable with_guest)(''guest@example.com'' \<mapsto>
        \<lparr>token = generateToken 32 draws, loggedIn = True\<rparr>)\<rparr>"
    by (simp add: run_def guest_login_def login_def with_guest_guest Let_def)
  ultimately show ?thesis
    by (simp add: with_guest_guest)
qed

end
